theory Spec2Isabelle
  imports Main "HOL-Library.AList"
begin

section \<open>Python values shared by the models\<close>

text \<open>
  Python numbers (\<open>int\<close> and \<open>float\<close>) are kept abstract as a type \<open>'n\<close>. The
  functions below only ever use the constant \<open>0\<close>, the addition \<open>+\<close> and the comparisons
  \<open>\<le>\<close> and \<open><\<close> on it, so \<open>'n\<close> carries the sort \<open>{zero, plus, ord}\<close> and no law of
  arithmetic is assumed: what is proved holds for exact integers as well as for any
  rounding addition, evaluated from left to right as the source evaluates it. Where
  the source compares two numbers with \<open>==\<close>, that comparison is a parameter of the
  model, since it is not the equality of HOL (a NaN is not \<open>==\<close> to itself).

  Exceptions are values of \<open>exn\<close>; a function that can raise returns \<open>exn + 'a\<close>, and a
  method that mutates shared objects before raising returns the state it reached
  together with \<open>exn option\<close>.
\<close>

datatype exn = TypeError | ValueError | KeyError | NotFound | RuntimeError | AttributeError

section \<open>\<open>shared/portfolio.py\<close>: Position\<close>

text \<open>
  The dataclass \<open>Position\<close>. Its \<open>__post_init__\<close> rejects every field that is not a
  number (or a string, for \<open>action\<close>), so \<open>None\<close> is never stored and each field has
  its plain type here.
\<close>

record 'n Position =
  action :: string
  avg_cost :: 'n
  quantity :: 'n
  total_cost :: 'n
  market_value :: 'n
  quantity_multiplier :: int
  price_multiplier :: 'n
  initial_margin :: 'n

text \<open>The constraint validation of \<open>__post_init__\<close> (the type checks hold by typing).\<close>

definition Position_post_init :: "('n::{zero,ord}) Position \<Rightarrow> exn + 'n Position" where
  "Position_post_init self =
     (if Position.action self \<notin> set [''BUY'', ''SELL''] then Inl ValueError
      else if price_multiplier self \<le> 0 then Inl ValueError
      else if quantity_multiplier self \<le> 0 then Inl ValueError
      else if initial_margin self < 0 then Inl ValueError
      else Inr self)"

text \<open>
  \<open>Position.__eq__(self, other)\<close>: \<open>other\<close> is any Python object; the first test is
  \<open>isinstance(other, Position)\<close>. The fields \<open>action\<close> (a string) and
  \<open>quantity_multiplier\<close> (an \<open>int\<close>) are compared by value. The other compared
  fields may each hold a \<open>float\<close>, and \<open>==\<close> on Python numbers is not an equality:
  \<open>float('nan') == float('nan')\<close> is \<open>False\<close>, and \<open>__post_init__\<close> lets a NaN
  through (it is a \<open>float\<close>, and every comparison with it is \<open>False\<close>). So \<open>==\<close>
  on numbers is the parameter \<open>eq\<close>, of which nothing is assumed, reflexivity least
  of all.
\<close>

datatype 'n pyobject = PositionObj "'n Position" | OtherObj

definition Position_eq :: "('n \<Rightarrow> 'n \<Rightarrow> bool) \<Rightarrow> 'n Position \<Rightarrow> 'n pyobject \<Rightarrow> bool" where
  "Position_eq eq self other =
     (case other of
        OtherObj \<Rightarrow> False
      | PositionObj other \<Rightarrow>
          Position.action self = Position.action other \<and>
          eq (avg_cost self) (avg_cost other) \<and>
          eq (Position.quantity self) (Position.quantity other) \<and>
          eq (price_multiplier self) (price_multiplier other) \<and>
          quantity_multiplier self = quantity_multiplier other \<and>
          eq (initial_margin self) (initial_margin other) \<and>
          eq (total_cost self) (total_cost other))"

section \<open>\<open>midastrader/core/adapters/order_manager.py\<close>: OrderExecutionManager\<close>

subsection \<open>The structures the manager reads and writes\<close>

text \<open>
  Modelled from the spec: the \<open>Action\<close> enumeration of \<open>midastrader.structs.orders\<close>,
  which is not among the source files. The spec lists the order actions
  LONG, SHORT, BUY, SELL and COVER.
\<close>

datatype Action = LONG | SHORT | BUY | SELL | COVER

text \<open>
  \<open>Contract\<close> (of \<open>ibapi\<close>) and \<open>BaseOrder\<close> are opaque to the manager but for
  \<open>order.quantity\<close>. A contract is identified by its symbol.
\<close>

datatype Contract = Contract string

record 'n BaseOrder =
  quantity :: 'n
  orderType :: string

text \<open>
  \<open>SignalInstruction\<close> is not among the source files. The manager reads its fields
  \<open>instrument\<close>, \<open>trade_id\<close>, \<open>leg_id\<close> and \<open>action\<close> and calls \<open>to_order()\<close>; the
  order that call returns is carried as the field \<open>to_order\<close>.
\<close>

record 'n SignalInstruction =
  instrument :: int
  action :: Action
  trade_id :: int
  leg_id :: int
  weight :: 'n
  to_order :: "'n BaseOrder"

record 'n SignalEvent =
  timestamp :: int
  instructions :: "'n SignalInstruction list"

text \<open>
  \<open>Symbol\<close> is not among the source files either. The manager reads \<open>instrument_id\<close>
  and \<open>contract\<close> and calls the method \<open>cost(quantity, price)\<close>, which each kind of
  symbol implements on its own: it is a function-valued field, and every theorem holds
  for whatever it computes.
\<close>

record 'n Symbol =
  instrument_id :: int
  contract :: Contract
  cost :: "'n \<Rightarrow> 'n \<Rightarrow> 'n"

text \<open>
  \<open>OrderEvent(timestamp, trade_id, leg_id, action, contract, order)\<close>, and the two
  kinds of message the manager publishes.
\<close>

datatype 'n OrderEvent = OrderEvent int int int Action Contract "'n BaseOrder"

datatype EventType = SIGNAL | ORDER | UPDATE_SYSTEM

datatype 'n payload = Flag bool | Order "'n OrderEvent"

text \<open>
  The shared objects: the portfolio server (capital, positions, active orders keyed
  by instrument), the order book (last price by instrument id) and the message bus,
  kept as the log of what was published, oldest first.
\<close>

record ActiveOrder =
  orderId :: int
  status :: string

record 'n PortfolioServer =
  capital :: 'n
  positions :: "int \<rightharpoonup> 'n Position"
  active_orders :: "(int \<times> ActiveOrder) list"

record 'n world =
  portfolio_server :: "'n PortfolioServer"
  order_book :: "int \<rightharpoonup> 'n"
  bus :: "(EventType \<times> 'n payload) list"

text \<open>
  The adapter object itself: its symbol map, its two \<open>threading.Event\<close>s and its
  subscription queue (the signals waiting in it, oldest first).
\<close>

record 'n OrderExecutionManager =
  symbols_map :: "int \<rightharpoonup> 'n Symbol"
  running :: bool
  shutdown_event :: bool
  signal_queue :: "'n SignalEvent list"

subsection \<open>Collaborators that are not among the source files\<close>

text \<open>
  Modelled from the spec: \<open>MessageBus.publish\<close>. The spec: "publish(kind, payload)
  enqueues the payload onto every current subscriber queue for that kind and returns
  immediately"; delivery is FIFO.
\<close>

definition publish :: "EventType \<Rightarrow> 'n payload \<Rightarrow> 'n world \<Rightarrow> 'n world" where
  "publish kind p w = w\<lparr>bus := bus w @ [(kind, p)]\<rparr>"

text \<open>
  Modelled from the spec: \<open>PortfolioServer.get_active_order_tickers\<close>. The spec:
  "activeOrderInstruments() -> set of instrument: the instruments with an order
  currently in flight".
\<close>

definition get_active_order_tickers :: "'n PortfolioServer \<Rightarrow> int list" where
  "get_active_order_tickers ps = map fst (active_orders ps)"

text \<open>
  Modelled from the spec: \<open>OrderBook.retrieve\<close>. The spec: "retrieve(instrument) ->
  price fails with a NotFound condition if the instrument has never been priced".
\<close>

definition retrieve :: "(int \<rightharpoonup> 'n) \<Rightarrow> int \<Rightarrow> exn + 'n" where
  "retrieve book i = (case book i of None \<Rightarrow> Inl NotFound | Some price \<Rightarrow> Inr price)"

text \<open>
  Modelled from the spec: the constructor of \<open>OrderEvent\<close>. The spec: "construct an
  Order (carrying timestamp, trade id, leg id, action, instrument reference, and the
  derived quantity/price)"; it names no way for the construction to fail on values of
  the right types.
\<close>

definition OrderEvent_new ::
  "int \<Rightarrow> int \<Rightarrow> int \<Rightarrow> Action \<Rightarrow> Contract \<Rightarrow> 'n BaseOrder \<Rightarrow> exn + 'n OrderEvent" where
  "OrderEvent_new ts tid lid a c ord = Inr (OrderEvent ts tid lid a c ord)"

subsection \<open>The methods of the manager\<close>

text \<open>
  \<open>_set_order\<close>: build the \<open>OrderEvent\<close> and publish it; any exception of the
  \<open>try\<close> block is raised again as \<open>RuntimeError\<close>.
\<close>

definition set_order ::
  "int \<Rightarrow> int \<Rightarrow> int \<Rightarrow> Action \<Rightarrow> Contract \<Rightarrow> 'n BaseOrder \<Rightarrow> 'n world
     \<Rightarrow> 'n world \<times> exn option" where
  "set_order ts tid lid a c ord w =
     (case OrderEvent_new ts tid lid a c ord of
        Inl e \<Rightarrow> (w, Some RuntimeError)
      | Inr order_event \<Rightarrow> (publish ORDER (Order order_event) w, None))"

text \<open>
  An entry of the list \<open>orders\<close> of \<open>_handle_signal\<close>: the dictionary with the keys
  timestamp, trade_id, leg_id, action, contract and order, as a tuple in that order.
\<close>

type_synonym 'n order_details = "int \<times> int \<times> int \<times> Action \<times> Contract \<times> 'n BaseOrder"

text \<open>
  The body of the first loop of \<open>_handle_signal\<close> up to \<open>order_details\<close>:
  \<open>symbols_map.map[trade.instrument]\<close> raises \<open>KeyError\<close> on an unknown instrument,
  \<open>retrieve\<close> raises on an unpriced one.
\<close>

definition cost_leg ::
  "(int \<rightharpoonup> 'n Symbol) \<Rightarrow> (int \<rightharpoonup> 'n) \<Rightarrow> int \<Rightarrow> 'n SignalInstruction
     \<Rightarrow> exn + ('n order_details \<times> 'n)" where
  "cost_leg smap book ts trade =
     (case smap (instrument trade) of
        None \<Rightarrow> Inl KeyError
      | Some symbol \<Rightarrow>
          (let ord = to_order trade in
           case retrieve book (instrument_id symbol) of
             Inl e \<Rightarrow> Inl e
           | Inr current_price \<Rightarrow>
               (let order_cost = cost symbol (quantity ord) current_price in
                Inr ((ts, trade_id trade, leg_id trade, action trade, contract symbol, ord),
                     order_cost))))"

text \<open>
  The first loop of \<open>_handle_signal\<close>, with its two accumulators \<open>orders\<close> and
  \<open>total_capital_required\<close>.
\<close>

fun costing_loop ::
  "(int \<rightharpoonup> 'n Symbol) \<Rightarrow> (int \<rightharpoonup> 'n) \<Rightarrow> int \<Rightarrow> ('n::plus) SignalInstruction list
     \<Rightarrow> 'n order_details list \<Rightarrow> 'n \<Rightarrow> exn + ('n order_details list \<times> 'n)" where
  "costing_loop smap book ts [] orders total_capital_required =
     Inr (orders, total_capital_required)"
| "costing_loop smap book ts (trade # rest) orders total_capital_required =
     (case cost_leg smap book ts trade of
        Inl e \<Rightarrow> Inl e
      | Inr (order_details, order_cost) \<Rightarrow>
          costing_loop smap book ts rest (orders @ [order_details])
            (if action trade \<notin> set [SELL, COVER]
             then total_capital_required + order_cost
             else total_capital_required))"

text \<open>The second loop of \<open>_handle_signal\<close>: one \<open>_set_order\<close> per entry, in order.\<close>

fun set_orders :: "'n order_details list \<Rightarrow> 'n world \<Rightarrow> 'n world \<times> exn option" where
  "set_orders [] w = (w, None)"
| "set_orders ((ts, tid, lid, a, c, ord) # rest) w =
     (case set_order ts tid lid a c ord w of
        (w', Some e) \<Rightarrow> (w', Some e)
      | (w', None) \<Rightarrow> set_orders rest w')"

definition handle_signal ::
  "('n::{zero,plus,ord}) OrderExecutionManager \<Rightarrow> int \<Rightarrow> 'n SignalInstruction list
     \<Rightarrow> 'n world \<Rightarrow> 'n world \<times> exn option" where
  "handle_signal self ts trade_instructions w =
     (case costing_loop (symbols_map self) (order_book w) ts trade_instructions [] 0 of
        Inl e \<Rightarrow> (w, Some e)
      | Inr (orders, total_capital_required) \<Rightarrow>
          if total_capital_required \<le> capital (portfolio_server w)
          then set_orders orders w
          else (publish UPDATE_SYSTEM (Flag False) w, None))"

definition handle_event ::
  "('n::{zero,plus,ord}) OrderExecutionManager \<Rightarrow> 'n SignalEvent \<Rightarrow> 'n world
     \<Rightarrow> 'n world \<times> exn option" where
  "handle_event self event w =
     (let trade_instructions = instructions event;
          ts = timestamp event;
          active_orders_tickers = get_active_order_tickers (portfolio_server w)
      in if list_ex (\<lambda>trade. instrument trade \<in> set active_orders_tickers)
              trade_instructions
         then (publish UPDATE_SYSTEM (Flag False) w, None)
         else handle_signal self ts trade_instructions w)"

subsection \<open>Notions for the statements\<close>

text \<open>
  The conflict condition in the words of the spec: some instruction of the signal
  refers to an instrument that has an active order.
\<close>

definition conflicts :: "'n SignalEvent \<Rightarrow> 'n world \<Rightarrow> bool" where
  "conflicts event w =
     (\<exists>trade \<in> set (instructions event).
        instrument trade \<in> set (get_active_order_tickers (portfolio_server w)))"

text \<open>
  A leg is priced as \<open>(symbol, price)\<close> when the symbol map resolves its instrument to
  \<open>symbol\<close> and the order book holds \<open>price\<close> for that symbol.
\<close>

definition priced_as ::
  "'n OrderExecutionManager \<Rightarrow> 'n world \<Rightarrow> 'n SignalInstruction \<Rightarrow> 'n Symbol \<times> 'n \<Rightarrow> bool" where
  "priced_as self w trade sp =
     (symbols_map self (instrument trade) = Some (fst sp) \<and>
      order_book w (instrument_id (fst sp)) = Some (snd sp))"

text \<open>The cost of a priced leg, its order details and the ORDER message made of them.\<close>

definition leg_cost :: "'n SignalInstruction \<Rightarrow> 'n Symbol \<times> 'n \<Rightarrow> 'n" where
  "leg_cost trade sp = cost (fst sp) (quantity (to_order trade)) (snd sp)"

definition leg_details :: "int \<Rightarrow> 'n SignalInstruction \<Rightarrow> 'n Symbol \<times> 'n \<Rightarrow> 'n order_details" where
  "leg_details ts trade sp =
     (ts, trade_id trade, leg_id trade, action trade, contract (fst sp), to_order trade)"

definition leg_order_message ::
  "int \<Rightarrow> 'n SignalInstruction \<Rightarrow> 'n Symbol \<times> 'n \<Rightarrow> EventType \<times> 'n payload" where
  "leg_order_message ts trade sp =
     (ORDER, Order (OrderEvent ts (trade_id trade) (leg_id trade) (action trade)
                      (contract (fst sp)) (to_order trade)))"

definition order_message :: "'n order_details \<Rightarrow> EventType \<times> 'n payload" where
  "order_message d =
     (case d of (ts, tid, lid, a, c, ord) \<Rightarrow> (ORDER, Order (OrderEvent ts tid lid a c ord)))"

text \<open>
  The required capital in the words of the spec: the costs of the legs that are not
  exits (SELL or COVER), added up from zero in the order of the instructions.
\<close>

definition is_exit :: "'n SignalInstruction \<Rightarrow> bool" where
  "is_exit trade = (action trade = SELL \<or> action trade = COVER)"

definition required_capital ::
  "('n::{zero,plus}) SignalInstruction list \<Rightarrow> ('n Symbol \<times> 'n) list \<Rightarrow> 'n" where
  "required_capital trades sps =
     foldl (+) 0 (map (\<lambda>(trade, sp). leg_cost trade sp)
                    (filter (\<lambda>(trade, sp). \<not> is_exit trade) (zip trades sps)))"

text \<open>The messages one call of \<open>handle_event\<close> appended to the bus.\<close>

definition published ::
  "('n::{zero,plus,ord}) OrderExecutionManager \<Rightarrow> 'n SignalEvent \<Rightarrow> 'n world
     \<Rightarrow> (EventType \<times> 'n payload) list" where
  "published self event w = drop (length (bus w)) (bus (fst (handle_event self event w)))"

subsection \<open>A small market for the examples\<close>

text \<open>
  Two instruments, 1 and 2, whose symbols cost quantity times price; a signal that
  buys 10 of the first and sells 8 of the second; each is priced at 100 in \<open>book_AB\<close>.
\<close>

definition symA :: "int Symbol" where
  "symA = \<lparr>instrument_id = 101, contract = Contract ''A'', cost = (\<lambda>q p. q * p)\<rparr>"

definition symB :: "int Symbol" where
  "symB = \<lparr>instrument_id = 102, contract = Contract ''B'', cost = (\<lambda>q p. q * p)\<rparr>"

definition mgr0 :: "int OrderExecutionManager" where
  "mgr0 = \<lparr>symbols_map = [1 \<mapsto> symA, 2 \<mapsto> symB], running = False,
            shutdown_event = False, signal_queue = []\<rparr>"

definition buyA :: "int SignalInstruction" where
  "buyA = \<lparr>instrument = 1, action = BUY, trade_id = 7, leg_id = 1, weight = 1,
            to_order = \<lparr>quantity = 10, orderType = ''MKT''\<rparr>\<rparr>"

definition sellA :: "int SignalInstruction" where
  "sellA = \<lparr>instrument = 1, action = SELL, trade_id = 8, leg_id = 1, weight = 1,
            to_order = \<lparr>quantity = 10, orderType = ''MKT''\<rparr>\<rparr>"

definition sellB :: "int SignalInstruction" where
  "sellB = \<lparr>instrument = 2, action = SELL, trade_id = 7, leg_id = 2, weight = 1,
            to_order = \<lparr>quantity = 8, orderType = ''MKT''\<rparr>\<rparr>"

definition sig_AB :: "int SignalEvent" where
  "sig_AB = \<lparr>timestamp = 5, instructions = [buyA, sellB]\<rparr>"

definition sig_exit :: "int SignalEvent" where
  "sig_exit = \<lparr>timestamp = 6, instructions = [sellA, sellB]\<rparr>"

definition book_AB :: "int \<rightharpoonup> int" where
  "book_AB = [101 \<mapsto> 100, 102 \<mapsto> 100]"

definition book_A :: "int \<rightharpoonup> int" where
  "book_A = [101 \<mapsto> 100]"

definition world0 :: "int \<Rightarrow> (int \<times> ActiveOrder) list \<Rightarrow> (int \<rightharpoonup> int) \<Rightarrow> int world" where
  "world0 cap act book =
     \<lparr>portfolio_server = \<lparr>capital = cap, positions = Map.empty, active_orders = act\<rparr>,
      order_book = book, bus = []\<rparr>"

subsection \<open>The worker loop \<open>process\<close>\<close>

text \<open>
  \<open>queue.Queue.get(block=True, timeout=None)\<close> of the Python library: it returns the
  oldest item when there is one; on an empty queue it waits, for ever when \<open>timeout\<close>
  is \<open>None\<close> and otherwise until the timeout has passed, when it raises
  \<open>queue.Empty\<close>.
\<close>

datatype 'a got = Item 'a "'a list" | Wait "nat option"

definition Queue_get :: "'a list \<Rightarrow> nat option \<Rightarrow> 'a got" where
  "Queue_get q timeout = (case q of item # rest \<Rightarrow> Item item rest | [] \<Rightarrow> Wait timeout)"

text \<open>
  The thread that runs \<open>process\<close> is either inside a call of \<open>get\<close> that waits (with
  the timeout of that call), or it has returned from \<open>process\<close>, or it has left it
  by an exception. \<open>cleanup_calls\<close> counts the calls of \<open>cleanup\<close>, which itself only
  writes to the log.
\<close>

datatype thread_state = Ready | Waiting "nat option" | Returned | Raised exn

record 'n worker =
  mgr :: "'n OrderExecutionManager"
  shared :: "'n world"
  cleanup_calls :: nat
  thread :: thread_state

definition cleanup :: "'n worker \<Rightarrow> 'n worker" where
  "cleanup st = st\<lparr>cleanup_calls := Suc (cleanup_calls st)\<rparr>"

text \<open>
  The \<open>while\<close> loop of \<open>process\<close>, entered at its test (\<open>at_test\<close>) or at the call
  \<open>self.signal_queue.get()\<close>, which passes no timeout. It runs until the thread waits
  in \<open>get\<close>, returns after \<open>cleanup\<close>, or is ended by an exception of
  \<open>handle_event\<close>: the \<open>try\<close> block catches \<open>queue.Empty\<close> only.
\<close>

function process_from :: "bool \<Rightarrow> ('n::{zero,plus,ord}) worker \<Rightarrow> 'n worker" where
  "process_from at_test st =
     (if at_test then
        (if shutdown_event (mgr st) then (cleanup st)\<lparr>thread := Returned\<rparr>
         else process_from False st)
      else
        (case Queue_get (signal_queue (mgr st)) None of
           Wait timeout \<Rightarrow> st\<lparr>thread := Waiting timeout\<rparr>
         | Item event rest \<Rightarrow>
             (case handle_event (mgr st) event (shared st) of
                (w', Some e) \<Rightarrow>
                  st\<lparr>mgr := (mgr st)\<lparr>signal_queue := rest\<rparr>, shared := w', thread := Raised e\<rparr>
              | (w', None) \<Rightarrow>
                  process_from True
                    (st\<lparr>mgr := (mgr st)\<lparr>signal_queue := rest\<rparr>, shared := w'\<rparr>))))"
  by pat_completeness auto
termination
  by (relation "measure (\<lambda>(at_test, st).
        2 * length (signal_queue (mgr st)) + (if at_test then 1 else 0))")
     (auto simp: Queue_get_def split: list.splits)

declare process_from.simps [simp del]

definition process :: "('n::{zero,plus,ord}) worker \<Rightarrow> 'n worker" where
  "process st = process_from True (st\<lparr>mgr := (mgr st)\<lparr>running := True\<rparr>\<rparr>)"

text \<open>
  What the other threads do to the worker while it runs: a signal is put on its
  queue, \<open>shutdown_event\<close> is set, or a polling interval passes with nothing put. A
  thread that waits in \<open>get\<close> goes on with the signal put; when the interval passes,
  a \<open>get\<close> with a timeout raises \<open>queue.Empty\<close>, which \<open>process\<close> answers with
  \<open>continue\<close>, and a \<open>get\<close> without one keeps waiting.
\<close>

datatype 'n happening = Put "'n SignalEvent" | SetShutdown | Elapse

definition happen :: "('n::{zero,plus,ord}) happening \<Rightarrow> 'n worker \<Rightarrow> 'n worker" where
  "happen h st =
     (case h of
        SetShutdown \<Rightarrow> st\<lparr>mgr := (mgr st)\<lparr>shutdown_event := True\<rparr>\<rparr>
      | Put event \<Rightarrow>
          (let st' = st\<lparr>mgr := (mgr st)\<lparr>signal_queue := signal_queue (mgr st) @ [event]\<rparr>\<rparr>
           in case thread st' of
                Waiting timeout \<Rightarrow> process_from False st'
              | _ \<Rightarrow> st')
      | Elapse \<Rightarrow>
          (case thread st of
             Waiting (Some t) \<Rightarrow> process_from True st
           | _ \<Rightarrow> st))"

fun timeline :: "('n::{zero,plus,ord}) happening list \<Rightarrow> 'n worker \<Rightarrow> 'n worker" where
  "timeline [] st = st"
| "timeline (h # hs) st = timeline hs (happen h st)"

text \<open>A worker that has not started, for the examples.\<close>

definition worker0 :: "int SignalEvent list \<Rightarrow> int world \<Rightarrow> int worker" where
  "worker0 q w = \<lparr>mgr = mgr0\<lparr>signal_queue := q\<rparr>, shared = w, cleanup_calls = 0, thread = Ready\<rparr>"

section \<open>\<open>midastrader/core/engine.py\<close>: CoreEngine\<close>

text \<open>
  A \<open>CoreEngine\<close> object is its attribute dictionary: reading an attribute that was
  never assigned raises \<open>AttributeError\<close>, as Python does. The values held are the
  two kinds the methods below work on (a \<open>threading.Event\<close> with its flag, the list of
  adapter threads, the dictionary of adapters by its keys), \<open>None\<close>, and objects the
  methods only pass on.
\<close>

datatype attr = Opaque | NoneVal | Event bool | Threads "string list" | Adapters "string list"

type_synonym engine = "(string \<times> attr) list"

definition getattr :: "engine \<Rightarrow> string \<Rightarrow> exn + attr" where
  "getattr self name =
     (case map_of self name of None \<Rightarrow> Inl AttributeError | Some v \<Rightarrow> Inr v)"

definition setattr :: "engine \<Rightarrow> string \<Rightarrow> attr \<Rightarrow> engine" where
  "setattr self name v = AList.update name v self"

text \<open>\<open>CoreEngine.__init__\<close>: the thirteen assignments, in the order of the source.\<close>

definition CoreEngine_init :: engine where
  "CoreEngine_init =
     [(''logger'', Opaque), (''mode'', Opaque), (''params'', Opaque),
      (''message_bus'', Opaque), (''symbols_map'', Opaque), (''output_dir'', Opaque),
      (''adapters'', Adapters []),
      (''porfolio_manager'', NoneVal), (''orderbook_manager'', NoneVal),
      (''performance_manager'', NoneVal), (''order_manager'', NoneVal),
      (''threads'', Threads []), (''running'', Event False)]"

text \<open>
  What a method does: it returns (with the engine as it left it), raises, or never
  returns because it waits for something that does not happen.
\<close>

datatype 'a outcome = Return 'a | Raise exn | Hang

text \<open>\<open>self.adapters[key] = ...\<close>, for \<open>initialize\<close> and \<open>set_strategy\<close>.\<close>

definition set_adapter :: "string \<Rightarrow> engine \<Rightarrow> engine outcome" where
  "set_adapter key self =
     (case getattr self ''adapters'' of
        Inl e \<Rightarrow> Raise e
      | Inr (Adapters keys) \<Rightarrow>
          Return (setattr self ''adapters''
                    (Adapters (if key \<in> set keys then keys else keys @ [key])))
      | Inr _ \<Rightarrow> Raise TypeError)"

definition and_then :: "'a outcome \<Rightarrow> ('a \<Rightarrow> 'b outcome) \<Rightarrow> 'b outcome" where
  "and_then m f = (case m of Return x \<Rightarrow> f x | Raise e \<Rightarrow> Raise e | Hang \<Rightarrow> Hang)"

definition initialize :: "engine \<Rightarrow> engine outcome" where
  "initialize self =
     and_then (set_adapter ''order_book'' self) (\<lambda>self.
     and_then (set_adapter ''portfolio_server'' self) (\<lambda>self.
     and_then (set_adapter ''order_manager'' self) (\<lambda>self.
     set_adapter ''performance_manager'' self)))"

definition set_strategy :: "engine \<Rightarrow> engine outcome" where
  "set_strategy self = set_adapter ''strategy'' self"

text \<open>
  \<open>start\<close>: one thread per adapter, appended to \<open>self.threads\<close> and started; the
  engine waits for the adapter's \<open>running\<close> event (\<open>starts key\<close> says whether the
  adapter \<open>key\<close> ever sets it), then starts the monitor thread and sets its own
  \<open>running\<close>. A thread is named by the key of the adapter whose \<open>process\<close> it runs.
\<close>

fun start_adapters :: "(string \<Rightarrow> bool) \<Rightarrow> string list \<Rightarrow> engine \<Rightarrow> engine outcome" where
  "start_adapters starts [] self = Return self"
| "start_adapters starts (k # ks) self =
     (case getattr self ''threads'' of
        Inl e \<Rightarrow> Raise e
      | Inr (Threads ts) \<Rightarrow>
          (let self' = setattr self ''threads'' (Threads (ts @ [k]))
           in if starts k then start_adapters starts ks self' else Hang)
      | Inr _ \<Rightarrow> Raise AttributeError)"

definition start :: "(string \<Rightarrow> bool) \<Rightarrow> engine \<Rightarrow> engine outcome" where
  "start starts self =
     (case getattr self ''adapters'' of
        Inl e \<Rightarrow> Raise e
      | Inr (Adapters keys) \<Rightarrow>
          and_then (start_adapters starts keys self) (\<lambda>self.
            case getattr self ''running'' of
              Inl e \<Rightarrow> Raise e
            | Inr (Event _) \<Rightarrow> Return (setattr self ''running'' (Event True))
            | Inr _ \<Rightarrow> Raise AttributeError)
      | Inr _ \<Rightarrow> Raise AttributeError)"

text \<open>
  \<open>_monitor_threads\<close>, the body of the monitor thread: \<open>join\<close> every adapter thread
  (\<open>finished key\<close> says whether that thread ever ends), then \<open>self.completed.set()\<close>.
\<close>

definition monitor_threads :: "(string \<Rightarrow> bool) \<Rightarrow> engine \<Rightarrow> engine outcome" where
  "monitor_threads finished self =
     (case getattr self ''threads'' of
        Inl e \<Rightarrow> Raise e
      | Inr (Threads ts) \<Rightarrow>
          if \<not> list_all finished ts then Hang
          else (case getattr self ''completed'' of
                  Inl e \<Rightarrow> Raise e
                | Inr (Event _) \<Rightarrow> Return (setattr self ''completed'' (Event True))
                | Inr _ \<Rightarrow> Raise AttributeError)
      | Inr _ \<Rightarrow> Raise TypeError)"

text \<open>\<open>wait_until_complete\<close>: \<open>self.completed.wait()\<close>.\<close>

definition wait_until_complete :: "engine \<Rightarrow> unit outcome" where
  "wait_until_complete self =
     (case getattr self ''completed'' of
        Inl e \<Rightarrow> Raise e
      | Inr (Event flag) \<Rightarrow> if flag then Return () else Hang
      | Inr _ \<Rightarrow> Raise AttributeError)"

text \<open>
  The engine as the driver has it when it waits for completion: constructed,
  initialised, given its strategy and started.
\<close>

definition adapter_keys :: "string list" where
  "adapter_keys =
     [''order_book'', ''portfolio_server'', ''order_manager'', ''performance_manager'',
      ''strategy'']"

definition started_engine :: "(string \<Rightarrow> bool) \<Rightarrow> engine outcome" where
  "started_engine starts =
     and_then (initialize CoreEngine_init) (\<lambda>self.
     and_then (set_strategy self) (\<lambda>self. start starts self))"

section \<open>Examples for \<open>Position\<close>\<close>

text \<open>
  For the examples, a Python number is a whole number or NaN, with the comparisons
  Python makes: two numbers are \<open>==\<close> when they have the same value, and every
  comparison with NaN is \<open>False\<close>.
\<close>

datatype pynum = Num int | NaN

fun py_eq :: "pynum \<Rightarrow> pynum \<Rightarrow> bool" where
  "py_eq (Num a) (Num b) = (a = b)"
| "py_eq _ _ = False"

instantiation pynum :: "{zero, ord}"
begin

definition zero_pynum :: pynum where
  "zero_pynum = Num 0"

definition less_eq_pynum :: "pynum \<Rightarrow> pynum \<Rightarrow> bool" where
  "less_eq_pynum x y = (case x of Num a \<Rightarrow> (case y of Num b \<Rightarrow> a \<le> b | NaN \<Rightarrow> False)
                                  | NaN \<Rightarrow> False)"

definition less_pynum :: "pynum \<Rightarrow> pynum \<Rightarrow> bool" where
  "less_pynum x y = (case x of Num a \<Rightarrow> (case y of Num b \<Rightarrow> a < b | NaN \<Rightarrow> False)
                               | NaN \<Rightarrow> False)"

instance ..

end

text \<open>
  A long position, the same position at another market value, and the same position
  with NaN as its average cost.
\<close>

definition posA :: "pynum Position" where
  "posA = \<lparr>Position.action = ''BUY'', avg_cost = Num 100, Position.quantity = Num 10,
            total_cost = Num 1000, market_value = Num 1000, quantity_multiplier = 1,
            price_multiplier = Num 1, initial_margin = Num 0\<rparr>"

definition posA' :: "pynum Position" where
  "posA' = posA\<lparr>market_value := Num 1250\<rparr>"

definition posNaN :: "pynum Position" where
  "posNaN = posA\<lparr>avg_cost := NaN\<rparr>"

section \<open>Properties of the order execution manager\<close>

subsection \<open>The two loops\<close>

lemma set_orders_log:
  "set_orders ds w = (w\<lparr>bus := bus w @ map order_message ds\<rparr>, None)"
proof (induction ds arbitrary: w)
  case Nil
  show ?case by simp
next
  case (Cons d ds)
  obtain ts tid lid a c ord where d: "d = (ts, tid, lid, a, c, ord)"
    by (cases d) auto
  show ?case
    by (simp add: d Cons.IH set_order_def OrderEvent_new_def publish_def order_message_def)
qed

lemma cost_leg_priced:
  "priced_as self w trade sp \<Longrightarrow>
   cost_leg (symbols_map self) (order_book w) ts trade =
     Inr (leg_details ts trade sp, leg_cost trade sp)"
  by (simp add: priced_as_def cost_leg_def retrieve_def leg_details_def leg_cost_def Let_def)

lemma cost_leg_unpriced:
  "symbols_map self (instrument trade) = Some symbol \<Longrightarrow>
   order_book w (instrument_id symbol) = None \<Longrightarrow>
   cost_leg (symbols_map self) (order_book w) ts trade = Inl NotFound"
  by (simp add: cost_leg_def retrieve_def)

lemma costing_loop_priced:
  "list_all2 (priced_as self w) trades sps \<Longrightarrow>
   costing_loop (symbols_map self) (order_book w) ts trades orders tot =
     Inr (orders @ map (\<lambda>(trade, sp). leg_details ts trade sp) (zip trades sps),
          foldl (+) tot (map (\<lambda>(trade, sp). leg_cost trade sp)
                    (filter (\<lambda>(trade, sp). \<not> is_exit trade) (zip trades sps))))"
proof (induction trades sps arbitrary: orders tot rule: list_all2_induct)
  case Nil
  show ?case by simp
next
  case (Cons trade trades sp sps)
  show ?case
    by (cases "is_exit trade")
       (auto simp: cost_leg_priced[OF Cons.hyps(1)] Cons.IH is_exit_def)
qed

lemma costing_loop_fails:
  "trade \<in> set trades \<Longrightarrow> cost_leg smap book ts trade = Inl e \<Longrightarrow>
   \<exists>e'. costing_loop smap book ts trades orders tot = Inl e'"
proof (induction trades arbitrary: orders tot)
  case Nil
  then show ?case by simp
next
  case (Cons t trades)
  show ?case
  proof (cases "cost_leg smap book ts t")
    case (Inl e0)
    then show ?thesis by simp
  next
    case (Inr dc)
    with Cons.prems have "trade \<in> set trades" by auto
    from Cons.IH[OF this Cons.prems(2)] Inr show ?thesis
      by (cases dc) simp
  qed
qed

lemma leg_details_message:
  "map order_message (map (\<lambda>(trade, sp). leg_details ts trade sp) (zip trades sps)) =
   map (\<lambda>(trade, sp). leg_order_message ts trade sp) (zip trades sps)"
  by (simp add: order_message_def leg_details_def leg_order_message_def split_def)

subsection \<open>The three ways \<open>handle_event\<close> ends\<close>

lemma handle_event_conflict:
  "conflicts event w \<Longrightarrow>
   handle_event self event w = (w\<lparr>bus := bus w @ [(UPDATE_SYSTEM, Flag False)]\<rparr>, None)"
  by (simp add: handle_event_def conflicts_def list_ex_iff publish_def Let_def)

lemma handle_event_uncosted:
  assumes "\<not> conflicts event w"
      and "costing_loop (symbols_map self) (order_book w) (timestamp event)
             (instructions event) [] 0 = Inl e"
  shows "handle_event self event w = (w, Some e)"
  using assms
  by (simp add: handle_event_def handle_signal_def conflicts_def list_ex_iff Let_def)

lemma handle_event_costed:
  assumes "\<not> conflicts event w"
      and "list_all2 (priced_as self w) (instructions event) sps"
  shows "handle_event self event w =
     (if required_capital (instructions event) sps \<le> capital (portfolio_server w)
      then (w\<lparr>bus := bus w @ map (\<lambda>(trade, sp). leg_order_message (timestamp event) trade sp)
                                (zip (instructions event) sps)\<rparr>, None)
      else (w\<lparr>bus := bus w @ [(UPDATE_SYSTEM, Flag False)]\<rparr>, None))"
proof -
  have loop: "costing_loop (symbols_map self) (order_book w) (timestamp event)
                (instructions event) [] 0 =
              Inr (map (\<lambda>(trade, sp). leg_details (timestamp event) trade sp)
                     (zip (instructions event) sps),
                   required_capital (instructions event) sps)"
    using costing_loop_priced[OF assms(2), of "timestamp event" "[]" 0]
    by (simp add: required_capital_def)
  show ?thesis
    using assms(1)
    by (simp add: handle_event_def handle_signal_def loop set_orders_log conflicts_def
        list_ex_iff leg_details_message publish_def Let_def del: map_map)
qed

lemma handle_event_extends_bus:
  "\<exists>msgs. handle_event self event w = (w\<lparr>bus := bus w @ msgs\<rparr>, snd (handle_event self event w))"
proof (cases "conflicts event w")
  case True
  from handle_event_conflict[OF True, of self] show ?thesis by auto
next
  case False
  show ?thesis
  proof (cases "costing_loop (symbols_map self) (order_book w) (timestamp event)
             (instructions event) [] 0")
    case (Inl e)
    have "handle_event self event w = (w\<lparr>bus := bus w @ []\<rparr>, Some e)"
      by (simp add: handle_event_uncosted[OF False Inl])
    then show ?thesis by (metis snd_conv)
  next
    case (Inr r)
    obtain orders tot where r: "r = (orders, tot)" by (cases r) auto
    show ?thesis
    proof (cases "tot \<le> capital (portfolio_server w)")
      case True
      with False Inr r
      have "handle_event self event w = (w\<lparr>bus := bus w @ map order_message orders\<rparr>, None)"
        by (simp add: handle_event_def handle_signal_def conflicts_def list_ex_iff Let_def
            set_orders_log)
      then show ?thesis by (metis snd_conv)
    next
      case nle: False
      with False Inr r
      have "handle_event self event w = (w\<lparr>bus := bus w @ [(UPDATE_SYSTEM, Flag False)]\<rparr>, None)"
        by (simp add: handle_event_def handle_signal_def conflicts_def list_ex_iff Let_def
            publish_def)
      then show ?thesis by (metis snd_conv)
    qed
  qed
qed

subsection \<open>Claims about signal handling\<close>

text \<open>
  C3. A signal with an instruction on an instrument that has an active order is
  rejected as a whole: \<open>handle_event\<close> publishes exactly one UPDATE_SYSTEM message
  carrying \<open>False\<close>, no ORDER message, and returns without raising. The result does
  not depend on the symbol map, on the order book or on the capital, none of which is
  consulted: no leg is costed.
\<close>

theorem conflict_rejects_whole_signal:
  assumes "conflicts event w"
  shows "handle_event self event w = (w\<lparr>bus := bus w @ [(UPDATE_SYSTEM, Flag False)]\<rparr>, None)
         \<and> published self event w = [(UPDATE_SYSTEM, Flag False)]"
proof -
  have res: "handle_event self event w =
               (w\<lparr>bus := bus w @ [(UPDATE_SYSTEM, Flag False)]\<rparr>, None)"
    by (rule handle_event_conflict[OF assms])
  then show ?thesis by (simp add: published_def)
qed

theorem conflict_rejects_whole_signal_witness:
  "conflicts sig_AB (world0 1000 [(1, \<lparr>orderId = 3, status = ''Submitted''\<rparr>)] Map.empty)
   \<and> handle_event (mgr0\<lparr>symbols_map := Map.empty\<rparr>) sig_AB
        (world0 1000 [(1, \<lparr>orderId = 3, status = ''Submitted''\<rparr>)] Map.empty) =
       ((world0 1000 [(1, \<lparr>orderId = 3, status = ''Submitted''\<rparr>)] Map.empty)
          \<lparr>bus := [(UPDATE_SYSTEM, Flag False)]\<rparr>, None)"
proof -
  have c: "conflicts sig_AB (world0 1000 [(1, \<lparr>orderId = 3, status = ''Submitted''\<rparr>)] Map.empty)"
    by (simp add: conflicts_def sig_AB_def world0_def get_active_order_tickers_def buyA_def)
  from conflict_rejects_whole_signal[OF c, of "mgr0\<lparr>symbols_map := Map.empty\<rparr>"] c
  show ?thesis by (simp add: world0_def)
qed

text \<open>
  C1. For a signal without conflict whose legs are all priced (leg \<open>i\<close> as
  \<open>sps ! i\<close>), \<open>handle_event\<close> publishes one ORDER message per instruction, in the
  order of the instructions, exactly when the required capital is at most the
  capital of the portfolio server; otherwise it publishes the single message
  UPDATE_SYSTEM \<open>False\<close> and no ORDER message. Nothing else changes and nothing is
  raised, so a signal is never emitted in part.
\<close>

theorem admission_all_or_nothing:
  assumes "\<not> conflicts event w"
      and "list_all2 (priced_as self w) (instructions event) sps"
  shows "handle_event self event w =
     (if required_capital (instructions event) sps \<le> capital (portfolio_server w)
      then (w\<lparr>bus := bus w @ map (\<lambda>(trade, sp). leg_order_message (timestamp event) trade sp)
                                (zip (instructions event) sps)\<rparr>, None)
      else (w\<lparr>bus := bus w @ [(UPDATE_SYSTEM, Flag False)]\<rparr>, None))"
proof -
  let ?ts = "timestamp event" and ?trades = "instructions event"
  have first_loop: "costing_loop (symbols_map self) (order_book w) ?ts ?trades [] 0 =
      Inr (map (\<lambda>(trade, sp). leg_details ?ts trade sp) (zip ?trades sps),
           required_capital ?trades sps)"
    using costing_loop_priced[OF assms(2), of ?ts "[]" 0]
    by (simp add: required_capital_def)
  have second_loop: "set_orders (map (\<lambda>(trade, sp). leg_details ?ts trade sp) (zip ?trades sps)) w =
      (w\<lparr>bus := bus w @ map (\<lambda>(trade, sp). leg_order_message ?ts trade sp)
                               (zip ?trades sps)\<rparr>, None)"
    by (simp only: set_orders_log leg_details_message)
  from assms(1) have "handle_event self event w = handle_signal self ?ts ?trades w"
    by (simp add: handle_event_def conflicts_def list_ex_iff Let_def)
  then show ?thesis
    by (simp add: handle_signal_def first_loop second_loop publish_def)
qed

lemma sig_AB_no_conflict: "\<not> conflicts sig_AB (world0 cap [] book)"
  by (simp add: conflicts_def world0_def get_active_order_tickers_def)

lemma sig_AB_priced:
  "list_all2 (priced_as mgr0 (world0 cap act book_AB)) (instructions sig_AB)
     [(symA, 100), (symB, 100)]"
  by (simp add: priced_as_def mgr0_def world0_def book_AB_def sig_AB_def buyA_def sellB_def
      symA_def symB_def)

lemma sig_AB_required:
  "required_capital (instructions sig_AB) [(symA, 100), (symB, 100)] = 1000"
  by (simp add: required_capital_def sig_AB_def buyA_def sellB_def is_exit_def leg_cost_def
      symA_def symB_def)

theorem admission_all_or_nothing_witness:
  "\<not> conflicts sig_AB (world0 1000 [] book_AB)
   \<and> list_all2 (priced_as mgr0 (world0 1000 [] book_AB)) (instructions sig_AB)
        [(symA, 100), (symB, 100)]
   \<and> handle_event mgr0 sig_AB (world0 1000 [] book_AB) =
       ((world0 1000 [] book_AB)
          \<lparr>bus := [(ORDER, Order (OrderEvent 5 7 1 BUY (Contract ''A'')
                                     \<lparr>quantity = 10, orderType = ''MKT''\<rparr>)),
                   (ORDER, Order (OrderEvent 5 7 2 SELL (Contract ''B'')
                                     \<lparr>quantity = 8, orderType = ''MKT''\<rparr>))]\<rparr>, None)
   \<and> handle_event mgr0 sig_AB (world0 999 [] book_AB) =
       ((world0 999 [] book_AB)\<lparr>bus := [(UPDATE_SYSTEM, Flag False)]\<rparr>, None)"
proof -
  have a: "handle_event mgr0 sig_AB (world0 1000 [] book_AB) =
       ((world0 1000 [] book_AB)
          \<lparr>bus := [(ORDER, Order (OrderEvent 5 7 1 BUY (Contract ''A'')
                                     \<lparr>quantity = 10, orderType = ''MKT''\<rparr>)),
                   (ORDER, Order (OrderEvent 5 7 2 SELL (Contract ''B'')
                                     \<lparr>quantity = 8, orderType = ''MKT''\<rparr>))]\<rparr>, None)"
    using admission_all_or_nothing[OF sig_AB_no_conflict sig_AB_priced, of 1000]
    by (simp add: sig_AB_required)
       (simp add: sig_AB_def buyA_def sellB_def leg_order_message_def symA_def symB_def
          world0_def)
  have b: "handle_event mgr0 sig_AB (world0 999 [] book_AB) =
       ((world0 999 [] book_AB)\<lparr>bus := [(UPDATE_SYSTEM, Flag False)]\<rparr>, None)"
    using admission_all_or_nothing[OF sig_AB_no_conflict sig_AB_priced, of 999]
    by (simp add: sig_AB_required) (simp add: world0_def)
  from a b sig_AB_no_conflict sig_AB_priced show ?thesis by blast
qed

text \<open>
  C2. When every leg of a signal is priced, the first loop of \<open>_handle_signal\<close>
  ends with \<open>total_capital_required\<close> equal to the sum, taken from zero in the order
  of the instructions, of the costs \<open>symbol.cost(order.quantity, price)\<close> of exactly
  the legs whose action is neither SELL nor COVER; the SELL and COVER legs add nothing.
  The list \<open>orders\<close> still holds every leg.
\<close>

theorem required_capital_skips_exits:
  assumes "list_all2 (priced_as self w) trades sps"
  shows "costing_loop (symbols_map self) (order_book w) ts trades [] 0 =
     Inr (map (\<lambda>(trade, sp). leg_details ts trade sp) (zip trades sps),
          foldl (+) 0
            (map (\<lambda>(trade, sp). cost (fst sp) (quantity (to_order trade)) (snd sp))
               (filter (\<lambda>(trade, sp). action trade \<noteq> SELL \<and> action trade \<noteq> COVER)
                  (zip trades sps))))"
  using costing_loop_priced[OF assms, of ts "[]" 0]
  by (simp add: is_exit_def leg_cost_def)

text \<open>
  The example of the spec: a BUY leg costing 1000 and a SELL leg costing 800 require
  1000, and the signal is admitted with a capital of 1000.
\<close>

theorem required_capital_skips_exits_witness:
  "list_all2 (priced_as mgr0 (world0 1000 [] book_AB)) [buyA, sellB] [(symA, 100), (symB, 100)]
   \<and> leg_cost buyA (symA, 100) = 1000 \<and> leg_cost sellB (symB, 100) = 800
   \<and> costing_loop (symbols_map mgr0) (order_book (world0 1000 [] book_AB)) 5 [buyA, sellB] [] 0 =
       Inr ([(5, 7, 1, BUY, Contract ''A'', \<lparr>quantity = 10, orderType = ''MKT''\<rparr>),
             (5, 7, 2, SELL, Contract ''B'', \<lparr>quantity = 8, orderType = ''MKT''\<rparr>)], 1000)
   \<and> snd (handle_event mgr0 sig_AB (world0 1000 [] book_AB)) = None
   \<and> map fst (published mgr0 sig_AB (world0 1000 [] book_AB)) = [ORDER, ORDER]"
proof -
  have p: "list_all2 (priced_as mgr0 (world0 1000 [] book_AB)) [buyA, sellB]
             [(symA, 100), (symB, 100)]"
    using sig_AB_priced[of 1000 "[]"] by (simp add: sig_AB_def)
  have c: "leg_cost buyA (symA, 100) = 1000 \<and> leg_cost sellB (symB, 100) = 800"
    by (simp add: leg_cost_def buyA_def sellB_def symA_def symB_def)
  have l: "costing_loop (symbols_map mgr0) (order_book (world0 1000 [] book_AB)) 5
             [buyA, sellB] [] 0 =
       Inr ([(5, 7, 1, BUY, Contract ''A'', \<lparr>quantity = 10, orderType = ''MKT''\<rparr>),
             (5, 7, 2, SELL, Contract ''B'', \<lparr>quantity = 8, orderType = ''MKT''\<rparr>)], 1000)"
    using required_capital_skips_exits[OF p, of 5]
    by (simp add: leg_details_def buyA_def sellB_def symA_def symB_def)
  have h: "handle_event mgr0 sig_AB (world0 1000 [] book_AB) =
       ((world0 1000 [] book_AB)
          \<lparr>bus := bus (world0 1000 [] book_AB) @
                   map (\<lambda>(trade, sp). leg_order_message (timestamp sig_AB) trade sp)
                     (zip (instructions sig_AB) [(symA, 100), (symB, 100)])\<rparr>, None)"
    using handle_event_costed[OF sig_AB_no_conflict sig_AB_priced, of 1000]
    by (simp add: sig_AB_required) (simp add: world0_def)
  have e: "snd (handle_event mgr0 sig_AB (world0 1000 [] book_AB)) = None
           \<and> map fst (published mgr0 sig_AB (world0 1000 [] book_AB)) = [ORDER, ORDER]"
    by (simp add: published_def h) (simp add: world0_def sig_AB_def leg_order_message_def)
  from p c l e show ?thesis by blast
qed

text \<open>
  C4. If the order book has no price for the symbol of some leg of the signal, then
  \<open>handle_event\<close> publishes no ORDER message at all: either the signal was already
  rejected by the conflict check, or the first loop raises before the second loop
  starts, and the world is left as it was, with nothing published.
\<close>

theorem unpriced_leg_emits_no_order:
  assumes "trade \<in> set (instructions event)"
      and "symbols_map self (instrument trade) = Some symbol"
      and "order_book w (instrument_id symbol) = None"
  shows "filter (\<lambda>m. fst m = ORDER) (published self event w) = []
         \<and> (handle_event self event w =
               (w\<lparr>bus := bus w @ [(UPDATE_SYSTEM, Flag False)]\<rparr>, None)
            \<or> (\<exists>e. handle_event self event w = (w, Some e)))"
proof (cases "conflicts event w")
  case True
  from handle_event_conflict[OF True, of self] show ?thesis
    by (simp add: published_def)
next
  case False
  from costing_loop_fails[OF assms(1) cost_leg_unpriced[OF assms(2) assms(3)]]
  obtain e where "costing_loop (symbols_map self) (order_book w) (timestamp event)
                    (instructions event) [] 0 = Inl e"
    by blast
  from handle_event_uncosted[OF False this] show ?thesis
    by (simp add: published_def)
qed

theorem unpriced_leg_emits_no_order_witness:
  "sellB \<in> set (instructions sig_AB)
   \<and> symbols_map mgr0 (instrument sellB) = Some symB
   \<and> order_book (world0 1000 [] book_A) (instrument_id symB) = None
   \<and> published mgr0 sig_AB (world0 1000 [] book_A) = []
   \<and> handle_event mgr0 sig_AB (world0 1000 [] book_A) = (world0 1000 [] book_A, Some NotFound)"
proof -
  have a: "sellB \<in> set (instructions sig_AB)" by (simp add: sig_AB_def)
  have b: "symbols_map mgr0 (instrument sellB) = Some symB"
    by (simp add: mgr0_def sellB_def)
  have c: "order_book (world0 1000 [] book_A) (instrument_id symB) = None"
    by (simp add: world0_def book_A_def symB_def)
  have l: "costing_loop (symbols_map mgr0) (order_book (world0 1000 [] book_A))
             (timestamp sig_AB) (instructions sig_AB) [] 0 = Inl NotFound"
    by (simp add: sig_AB_def cost_leg_def mgr0_def buyA_def sellB_def symA_def symB_def
        world0_def book_A_def retrieve_def)
  have h: "handle_event mgr0 sig_AB (world0 1000 [] book_A) =
             (world0 1000 [] book_A, Some NotFound)"
    by (rule handle_event_uncosted[OF sig_AB_no_conflict l])
  from unpriced_leg_emits_no_order[OF a b c] a b c h show ?thesis
    by (simp add: published_def)
qed

text \<open>
  C5. \<open>handle_event\<close> only reads the portfolio server. Whatever the signal, and
  whether it is rejected, admitted or ends in an exception, the world it leaves
  differs from the one it found by the messages appended to the bus and by nothing
  else: the capital, the positions and the active orders are the same, and so is the
  order book.
\<close>

theorem handle_event_only_publishes:
  "fst (handle_event self event w) = w\<lparr>bus := bus w @ published self event w\<rparr>
   \<and> capital (portfolio_server (fst (handle_event self event w))) = capital (portfolio_server w)
   \<and> positions (portfolio_server (fst (handle_event self event w))) =
       positions (portfolio_server w)
   \<and> active_orders (portfolio_server (fst (handle_event self event w))) =
       active_orders (portfolio_server w)
   \<and> order_book (fst (handle_event self event w)) = order_book w"
proof -
  from handle_event_extends_bus[of self event w]
  obtain msgs where "handle_event self event w =
      (w\<lparr>bus := bus w @ msgs\<rparr>, snd (handle_event self event w))"
    by blast
  then have m: "fst (handle_event self event w) = w\<lparr>bus := bus w @ msgs\<rparr>"
    by (metis fst_conv)
  then have "published self event w = msgs"
    by (simp add: published_def)
  with m show ?thesis by simp
qed

theorem handle_event_only_publishes_witness:
  "capital (portfolio_server (fst (handle_event mgr0 sig_AB (world0 1000 [] book_AB)))) = 1000
   \<and> active_orders (portfolio_server (fst (handle_event mgr0 sig_AB (world0 1000 [] book_AB))))
       = []
   \<and> length (bus (fst (handle_event mgr0 sig_AB (world0 1000 [] book_AB)))) = 2"
proof -
  have h: "handle_event mgr0 sig_AB (world0 1000 [] book_AB) =
       ((world0 1000 [] book_AB)
          \<lparr>bus := bus (world0 1000 [] book_AB) @
                   map (\<lambda>(trade, sp). leg_order_message (timestamp sig_AB) trade sp)
                     (zip (instructions sig_AB) [(symA, 100), (symB, 100)])\<rparr>, None)"
    using handle_event_costed[OF sig_AB_no_conflict sig_AB_priced, of 1000]
    by (simp add: sig_AB_required) (simp add: world0_def)
  have l: "length (bus (fst (handle_event mgr0 sig_AB (world0 1000 [] book_AB)))) = 2"
    by (simp add: h) (simp add: world0_def sig_AB_def)
  from handle_event_only_publishes[of mgr0 sig_AB "world0 1000 [] book_AB"] l
  show ?thesis by (simp add: world0_def)
qed

text \<open>
  C10. For a signal without conflict whose legs are all priced and all exits (SELL
  or COVER), the first loop ends with \<open>total_capital_required = 0\<close>, and the
  signal is admitted exactly when \<open>0 \<le> capital\<close>: with a negative capital even such a
  signal is rejected, with the single message UPDATE_SYSTEM \<open>False\<close> and no ORDER.
\<close>

theorem exit_only_signal_admitted_iff_capital_nonnegative:
  assumes "\<not> conflicts event w"
      and "list_all2 (priced_as self w) (instructions event) sps"
      and "\<forall>trade \<in> set (instructions event). action trade = SELL \<or> action trade = COVER"
  shows "costing_loop (symbols_map self) (order_book w) (timestamp event)
           (instructions event) [] 0 =
           Inr (map (\<lambda>(trade, sp). leg_details (timestamp event) trade sp)
                  (zip (instructions event) sps), 0)
         \<and> handle_event self event w =
           (if 0 \<le> capital (portfolio_server w)
            then (w\<lparr>bus := bus w @
                      map (\<lambda>(trade, sp). leg_order_message (timestamp event) trade sp)
                        (zip (instructions event) sps)\<rparr>, None)
            else (w\<lparr>bus := bus w @ [(UPDATE_SYSTEM, Flag False)]\<rparr>, None))"
proof -
  have "filter (\<lambda>(trade, sp). \<not> is_exit trade) (zip (instructions event) sps) = []"
    using assms(3) by (auto simp: filter_empty_conv is_exit_def dest: set_zip_leftD)
  then have req: "required_capital (instructions event) sps = 0"
    by (simp add: required_capital_def)
  have "costing_loop (symbols_map self) (order_book w) (timestamp event)
           (instructions event) [] 0 =
           Inr (map (\<lambda>(trade, sp). leg_details (timestamp event) trade sp)
                  (zip (instructions event) sps), required_capital (instructions event) sps)"
    using costing_loop_priced[OF assms(2), of "timestamp event" "[]" 0]
    by (simp add: required_capital_def)
  with handle_event_costed[OF assms(1) assms(2)] req show ?thesis by simp
qed

lemma sig_exit_no_conflict: "\<not> conflicts sig_exit (world0 cap [] book)"
  by (simp add: conflicts_def world0_def get_active_order_tickers_def)

lemma sig_exit_priced:
  "list_all2 (priced_as mgr0 (world0 cap act book_AB)) (instructions sig_exit)
     [(symA, 100), (symB, 100)]"
  by (simp add: priced_as_def mgr0_def world0_def book_AB_def sig_exit_def sellA_def sellB_def
      symA_def symB_def)

lemma sig_exit_all_exits:
  "\<forall>trade \<in> set (instructions sig_exit). action trade = SELL \<or> action trade = COVER"
  by (simp add: sig_exit_def sellA_def sellB_def)

theorem exit_only_signal_admitted_iff_capital_nonnegative_witness:
  "\<not> conflicts sig_exit (world0 (- 1) [] book_AB)
   \<and> list_all2 (priced_as mgr0 (world0 (- 1) [] book_AB)) (instructions sig_exit)
        [(symA, 100), (symB, 100)]
   \<and> list_all (\<lambda>trade. action trade = SELL \<or> action trade = COVER) (instructions sig_exit)
   \<and> handle_event mgr0 sig_exit (world0 (- 1) [] book_AB) =
       ((world0 (- 1) [] book_AB)\<lparr>bus := [(UPDATE_SYSTEM, Flag False)]\<rparr>, None)
   \<and> handle_event mgr0 sig_exit (world0 0 [] book_AB) =
       ((world0 0 [] book_AB)
          \<lparr>bus := [(ORDER, Order (OrderEvent 6 8 1 SELL (Contract ''A'')
                                     \<lparr>quantity = 10, orderType = ''MKT''\<rparr>)),
                   (ORDER, Order (OrderEvent 6 7 2 SELL (Contract ''B'')
                                     \<lparr>quantity = 8, orderType = ''MKT''\<rparr>))]\<rparr>, None)"
proof -
  have x: "list_all (\<lambda>trade. action trade = SELL \<or> action trade = COVER) (instructions sig_exit)"
    by (simp add: sig_exit_def sellA_def sellB_def)
  have a: "handle_event mgr0 sig_exit (world0 (- 1) [] book_AB) =
       ((world0 (- 1) [] book_AB)\<lparr>bus := [(UPDATE_SYSTEM, Flag False)]\<rparr>, None)"
    using exit_only_signal_admitted_iff_capital_nonnegative
            [OF sig_exit_no_conflict sig_exit_priced sig_exit_all_exits, of "- 1"]
    by (simp add: world0_def)
  have b: "handle_event mgr0 sig_exit (world0 0 [] book_AB) =
       ((world0 0 [] book_AB)
          \<lparr>bus := [(ORDER, Order (OrderEvent 6 8 1 SELL (Contract ''A'')
                                     \<lparr>quantity = 10, orderType = ''MKT''\<rparr>)),
                   (ORDER, Order (OrderEvent 6 7 2 SELL (Contract ''B'')
                                     \<lparr>quantity = 8, orderType = ''MKT''\<rparr>))]\<rparr>, None)"
    using exit_only_signal_admitted_iff_capital_nonnegative
            [OF sig_exit_no_conflict sig_exit_priced sig_exit_all_exits, of 0]
    by (simp add: world0_def sig_exit_def sellA_def sellB_def leg_order_message_def
        symA_def symB_def)
  from a b x sig_exit_no_conflict sig_exit_priced show ?thesis by blast
qed

section \<open>Properties of the worker loop\<close>

lemma handle_event_running [simp]:
  "handle_event (self\<lparr>running := b\<rparr>) event w = handle_event self event w"
  by (simp add: handle_event_def handle_signal_def Let_def)

lemma handle_event_symbols_map:
  "symbols_map self' = symbols_map self \<Longrightarrow>
   handle_event self' event w = handle_event self event w"
  by (simp add: handle_event_def handle_signal_def Let_def)

lemma process_from_test:
  "process_from True st =
     (if shutdown_event (mgr st) then (cleanup st)\<lparr>thread := Returned\<rparr>
      else process_from False st)"
  by (subst process_from.simps) simp

lemma process_from_get_empty:
  "signal_queue (mgr st) = [] \<Longrightarrow> process_from False st = st\<lparr>thread := Waiting None\<rparr>"
  by (subst process_from.simps) (simp add: Queue_get_def)

lemma process_from_get_raise:
  "signal_queue (mgr st) = event # rest \<Longrightarrow>
   handle_event (mgr st) event (shared st) = (w', Some e) \<Longrightarrow>
   process_from False st =
     st\<lparr>mgr := (mgr st)\<lparr>signal_queue := rest\<rparr>, shared := w', thread := Raised e\<rparr>"
  by (subst process_from.simps) (simp add: Queue_get_def)

lemma process_from_get_ok:
  "signal_queue (mgr st) = event # rest \<Longrightarrow>
   handle_event (mgr st) event (shared st) = (w', None) \<Longrightarrow>
   process_from False st =
     process_from True (st\<lparr>mgr := (mgr st)\<lparr>signal_queue := rest\<rparr>, shared := w'\<rparr>)"
  by (subst process_from.simps) (simp add: Queue_get_def)

text \<open>
  However the loop is left, \<open>cleanup\<close> has run once if \<open>process\<close> returned and not at
  all otherwise.
\<close>

lemma process_from_cleanup_calls:
  "cleanup_calls (process_from at_test st) =
     (if thread (process_from at_test st) = Returned then Suc (cleanup_calls st)
      else cleanup_calls st)
   \<and> thread (process_from at_test st) \<noteq> Ready"
proof (induction at_test st rule: process_from.induct)
  case (1 at_test st)
  show ?case
  proof (cases at_test)
    case True
    show ?thesis
    proof (cases "shutdown_event (mgr st)")
      case sd: True
      with True show ?thesis by (simp add: process_from_test cleanup_def)
    next
      case sd: False
      from "1.IH"(1)[OF True sd] True sd show ?thesis by (simp add: process_from_test)
    qed
  next
    case False
    show ?thesis
    proof (cases "signal_queue (mgr st)")
      case Nil
      with False show ?thesis by (simp add: process_from_get_empty)
    next
      case (Cons event rest)
      obtain w' r where h: "handle_event (mgr st) event (shared st) = (w', r)"
        by (cases "handle_event (mgr st) event (shared st)") auto
      have g: "Queue_get (signal_queue (mgr st)) None = Item event rest"
        by (simp add: Queue_get_def Cons)
      show ?thesis
      proof (cases r)
        case None
        from "1.IH"(2)[OF False g h[symmetric] None] False h None
        show ?thesis by (simp add: process_from_get_ok[OF Cons])
      next
        case (Some e)
        with False h show ?thesis by (simp add: process_from_get_raise[OF Cons])
      qed
    qed
  qed
qed

lemma process_waits:
  assumes "signal_queue (mgr st) = []" and "\<not> shutdown_event (mgr st)"
  shows "process st = st\<lparr>mgr := (mgr st)\<lparr>running := True\<rparr>, thread := Waiting None\<rparr>"
  using assms by (simp add: process_def process_from_test process_from_get_empty)

lemma happen_while_waiting:
  assumes "thread st = Waiting None" and "h = SetShutdown \<or> h = Elapse"
  shows "thread (happen h st) = Waiting None \<and> cleanup_calls (happen h st) = cleanup_calls st"
  using assms by (auto simp: happen_def)

lemma timeline_while_waiting:
  assumes "thread st = Waiting None" and "\<forall>h \<in> set hs. h = SetShutdown \<or> h = Elapse"
  shows "thread (timeline hs st) = Waiting None \<and>
         cleanup_calls (timeline hs st) = cleanup_calls st"
  using assms
proof (induction hs arbitrary: st)
  case Nil
  then show ?case by simp
next
  case (Cons h hs)
  from Cons.prems have h: "h = SetShutdown \<or> h = Elapse" by simp
  from happen_while_waiting[OF Cons.prems(1) h] Cons.IH[of "happen h st"] Cons.prems(2)
  show ?case by simp
qed

lemma timeline_shutdown_set:
  "shutdown_event (mgr st) \<Longrightarrow> \<forall>h \<in> set hs. h = SetShutdown \<or> h = Elapse \<Longrightarrow>
   thread st = Waiting None \<Longrightarrow> shutdown_event (mgr (timeline hs st))"
proof (induction hs arbitrary: st)
  case Nil
  then show ?case by simp
next
  case (Cons h hs)
  from Cons.prems have h: "h = SetShutdown \<or> h = Elapse" by simp
  with Cons.prems have "shutdown_event (mgr (happen h st))"
    by (auto simp: happen_def)
  moreover from happen_while_waiting[OF Cons.prems(3) h]
  have "thread (happen h st) = Waiting None" by simp
  ultimately show ?case using Cons.IH[of "happen h st"] Cons.prems(2) by simp
qed

text \<open>
  C6. The claim fails on \<open>OrderExecutionManager.process\<close>: the wait on the queue has
  no timeout. A worker started on an empty queue waits in \<open>get\<close>; when
  \<open>shutdown_event\<close> is then set, the worker still waits and has not run \<open>cleanup\<close>
  after any number of polling intervals in which no signal is put, however many.
\<close>

theorem shutdown_unobserved_without_signal:
  assumes "signal_queue (mgr st) = []" and "\<not> shutdown_event (mgr st)"
      and "\<forall>h \<in> set hs. h = SetShutdown \<or> h = Elapse"
  shows "shutdown_event (mgr (timeline (SetShutdown # hs) (process st)))
         \<and> thread (timeline (SetShutdown # hs) (process st)) = Waiting None
         \<and> cleanup_calls (timeline (SetShutdown # hs) (process st)) = cleanup_calls st"
proof -
  let ?st = "process st"
  have w: "thread ?st = Waiting None" and c: "cleanup_calls ?st = cleanup_calls st"
    by (simp_all add: process_waits[OF assms(1,2)])
  have all: "\<forall>h \<in> set (SetShutdown # hs). h = SetShutdown \<or> h = Elapse"
    using assms(3) by simp
  have w1: "thread (happen SetShutdown ?st) = Waiting None"
    using happen_while_waiting[OF w, of SetShutdown] by simp
  have s1: "shutdown_event (mgr (happen SetShutdown ?st))"
    by (simp add: happen_def)
  from timeline_shutdown_set[OF s1 assms(3) w1] timeline_while_waiting[OF w all] c
  show ?thesis by simp
qed

theorem shutdown_unobserved_without_signal_witness:
  "signal_queue (mgr (worker0 [] (world0 1000 [] book_AB))) = []
   \<and> \<not> shutdown_event (mgr (worker0 [] (world0 1000 [] book_AB)))
   \<and> list_all (\<lambda>h. h = SetShutdown \<or> h = Elapse) [Elapse, Elapse, Elapse :: int happening]
   \<and> shutdown_event (mgr (timeline [SetShutdown, Elapse, Elapse, Elapse]
                            (process (worker0 [] (world0 1000 [] book_AB)))))
   \<and> thread (timeline [SetShutdown, Elapse, Elapse, Elapse]
               (process (worker0 [] (world0 1000 [] book_AB)))) = Waiting None
   \<and> cleanup_calls (timeline [SetShutdown, Elapse, Elapse, Elapse]
                      (process (worker0 [] (world0 1000 [] book_AB)))) = 0"
proof -
  have a: "signal_queue (mgr (worker0 [] (world0 1000 [] book_AB))) = []"
    by (simp add: worker0_def)
  have b: "\<not> shutdown_event (mgr (worker0 [] (world0 1000 [] book_AB)))"
    by (simp add: worker0_def mgr0_def)
  have c: "\<forall>h \<in> set [Elapse, Elapse, Elapse :: int happening]. h = SetShutdown \<or> h = Elapse"
    by simp
  have d: "cleanup_calls (worker0 [] (world0 1000 [] book_AB)) = 0"
    by (simp add: worker0_def)
  from shutdown_unobserved_without_signal[OF a b c] a b d show ?thesis by simp
qed

text \<open>
  The loop does end once a further signal arrives: the waiting \<open>get\<close> returns it, it
  is handled, and only then is \<open>shutdown_event\<close> tested; \<open>process\<close> returns after
  one call of \<open>cleanup\<close>.
\<close>

theorem shutdown_observed_after_next_signal:
  assumes "signal_queue (mgr st) = []" and "\<not> shutdown_event (mgr st)"
      and "snd (handle_event (mgr st) event (shared st)) = None"
  shows "thread (timeline [SetShutdown, Put event] (process st)) = Returned
         \<and> cleanup_calls (timeline [SetShutdown, Put event] (process st)) = Suc (cleanup_calls st)"
proof -
  obtain w' where h: "handle_event (mgr st) event (shared st) = (w', None)"
    using assms(3) by (cases "handle_event (mgr st) event (shared st)") auto
  let ?s2 = "(process st)\<lparr>mgr := (mgr (process st))\<lparr>shutdown_event := True,
               signal_queue := [event]\<rparr>\<rparr>"
  have q: "signal_queue (mgr ?s2) = event # []" by simp
  have h2: "handle_event (mgr ?s2) event (shared ?s2) = (w', None)"
    using h handle_event_symbols_map[of "mgr ?s2" "mgr st" event "shared st"]
    by (simp add: process_waits[OF assms(1,2)])
  have "timeline [SetShutdown, Put event] (process st) = process_from False ?s2"
    by (simp add: happen_def process_waits[OF assms(1,2)] assms(1))
  also have "\<dots> = process_from True (?s2\<lparr>mgr := (mgr ?s2)\<lparr>signal_queue := []\<rparr>, shared := w'\<rparr>)"
    by (rule process_from_get_ok[OF q h2])
  finally show ?thesis
    by (simp add: process_from_test cleanup_def process_waits[OF assms(1,2)])
qed

theorem shutdown_observed_after_next_signal_witness:
  "signal_queue (mgr (worker0 [] (world0 1000 [] book_AB))) = []
   \<and> \<not> shutdown_event (mgr (worker0 [] (world0 1000 [] book_AB)))
   \<and> snd (handle_event (mgr (worker0 [] (world0 1000 [] book_AB))) sig_AB
            (shared (worker0 [] (world0 1000 [] book_AB)))) = None
   \<and> thread (timeline [SetShutdown, Put sig_AB] (process (worker0 [] (world0 1000 [] book_AB))))
       = Returned
   \<and> cleanup_calls (timeline [SetShutdown, Put sig_AB]
                      (process (worker0 [] (world0 1000 [] book_AB)))) = 1"
proof -
  have a: "signal_queue (mgr (worker0 [] (world0 1000 [] book_AB))) = []"
    by (simp add: worker0_def)
  have b: "\<not> shutdown_event (mgr (worker0 [] (world0 1000 [] book_AB)))"
    by (simp add: worker0_def mgr0_def)
  have "snd (handle_event mgr0 sig_AB (world0 1000 [] book_AB)) = None"
    using handle_event_costed[OF sig_AB_no_conflict sig_AB_priced, of 1000]
    by (simp add: sig_AB_required)
  then have c: "snd (handle_event (mgr (worker0 [] (world0 1000 [] book_AB))) sig_AB
            (shared (worker0 [] (world0 1000 [] book_AB)))) = None"
    using handle_event_symbols_map[of "mgr0\<lparr>signal_queue := []\<rparr>" mgr0 sig_AB]
    by (simp add: worker0_def)
  have d: "cleanup_calls (worker0 [] (world0 1000 [] book_AB)) = 0"
    by (simp add: worker0_def)
  from shutdown_observed_after_next_signal[OF a b c] a b c d show ?thesis by simp
qed

text \<open>
  C7. The claim fails on \<open>OrderExecutionManager.process\<close>: \<open>cleanup\<close> stands after
  the loop and not in a \<open>finally\<close>. When \<open>handle_event\<close> raises on the first signal
  of the queue, the exception ends \<open>process\<close> and \<open>cleanup\<close> has not run.
\<close>

theorem error_exit_skips_cleanup:
  assumes "\<not> shutdown_event (mgr st)"
      and "signal_queue (mgr st) = event # rest"
      and "snd (handle_event (mgr st) event (shared st)) = Some e"
  shows "thread (process st) = Raised e \<and> cleanup_calls (process st) = cleanup_calls st"
proof -
  obtain w' where h: "handle_event (mgr st) event (shared st) = (w', Some e)"
    using assms(3) by (cases "handle_event (mgr st) event (shared st)") auto
  let ?s = "st\<lparr>mgr := (mgr st)\<lparr>running := True\<rparr>\<rparr>"
  have q: "signal_queue (mgr ?s) = event # rest" using assms(2) by simp
  have h': "handle_event (mgr ?s) event (shared ?s) = (w', Some e)" using h by simp
  have "process st = process_from False ?s"
    using assms(1) by (simp add: process_def process_from_test)
  with process_from_get_raise[OF q h'] show ?thesis by simp
qed

theorem error_exit_skips_cleanup_witness:
  "\<not> shutdown_event (mgr (worker0 [sig_AB] (world0 1000 [] book_A)))
   \<and> signal_queue (mgr (worker0 [sig_AB] (world0 1000 [] book_A))) = [sig_AB]
   \<and> snd (handle_event (mgr (worker0 [sig_AB] (world0 1000 [] book_A))) sig_AB
            (shared (worker0 [sig_AB] (world0 1000 [] book_A)))) = Some NotFound
   \<and> thread (process (worker0 [sig_AB] (world0 1000 [] book_A))) = Raised NotFound
   \<and> cleanup_calls (process (worker0 [sig_AB] (world0 1000 [] book_A))) = 0"
proof -
  have a: "\<not> shutdown_event (mgr (worker0 [sig_AB] (world0 1000 [] book_A)))"
    by (simp add: worker0_def mgr0_def)
  have b: "signal_queue (mgr (worker0 [sig_AB] (world0 1000 [] book_A))) = sig_AB # []"
    by (simp add: worker0_def)
  have l: "costing_loop (symbols_map mgr0) (order_book (world0 1000 [] book_A))
             (timestamp sig_AB) (instructions sig_AB) [] 0 = Inl NotFound"
    by (simp add: sig_AB_def cost_leg_def mgr0_def buyA_def sellB_def symA_def symB_def
        world0_def book_A_def retrieve_def)
  have "handle_event mgr0 sig_AB (world0 1000 [] book_A) =
             (world0 1000 [] book_A, Some NotFound)"
    by (rule handle_event_uncosted[OF sig_AB_no_conflict l])
  then have c: "snd (handle_event (mgr (worker0 [sig_AB] (world0 1000 [] book_A))) sig_AB
            (shared (worker0 [sig_AB] (world0 1000 [] book_A)))) = Some NotFound"
    using handle_event_symbols_map[of "mgr0\<lparr>signal_queue := [sig_AB]\<rparr>" mgr0 sig_AB]
    by (simp add: worker0_def)
  have d: "cleanup_calls (worker0 [sig_AB] (world0 1000 [] book_A)) = 0"
    by (simp add: worker0_def)
  from error_exit_skips_cleanup[OF a b c] a b c d show ?thesis by simp
qed

text \<open>
  However \<open>process\<close> ends, \<open>cleanup\<close> has run exactly once if it returned, and not
  at all if it was left by an exception or still waits in \<open>get\<close>. The thread never
  stays \<open>Ready\<close>.
\<close>

theorem process_cleanup_calls:
  "cleanup_calls (process st) =
     (if thread (process st) = Returned then Suc (cleanup_calls st) else cleanup_calls st)
   \<and> thread (process st) \<noteq> Ready"
  using process_from_cleanup_calls[of True "st\<lparr>mgr := (mgr st)\<lparr>running := True\<rparr>\<rparr>"]
  by (simp add: process_def)

theorem process_cleanup_calls_witness:
  "thread (process ((worker0 [sig_AB] (world0 1000 [] book_AB))
                      \<lparr>mgr := mgr0\<lparr>shutdown_event := True\<rparr>\<rparr>)) = Returned
   \<and> cleanup_calls (process ((worker0 [sig_AB] (world0 1000 [] book_AB))
                      \<lparr>mgr := mgr0\<lparr>shutdown_event := True\<rparr>\<rparr>)) = 1"
proof -
  have r: "thread (process ((worker0 [sig_AB] (world0 1000 [] book_AB))
                      \<lparr>mgr := mgr0\<lparr>shutdown_event := True\<rparr>\<rparr>)) = Returned"
    by (simp add: process_def process_from_test)
  from process_cleanup_calls[of "(worker0 [sig_AB] (world0 1000 [] book_AB))
                      \<lparr>mgr := mgr0\<lparr>shutdown_event := True\<rparr>\<rparr>"] r
  show ?thesis by (simp add: worker0_def)
qed

section \<open>Properties of the core engine\<close>

lemma engine_with_strategy:
  "and_then (initialize CoreEngine_init) set_strategy =
     Return [(''logger'', Opaque), (''mode'', Opaque), (''params'', Opaque),
      (''message_bus'', Opaque), (''symbols_map'', Opaque), (''output_dir'', Opaque),
      (''adapters'', Adapters [''order_book'', ''portfolio_server'', ''order_manager'',
                               ''performance_manager'', ''strategy'']),
      (''porfolio_manager'', NoneVal), (''orderbook_manager'', NoneVal),
      (''performance_manager'', NoneVal), (''order_manager'', NoneVal),
      (''threads'', Threads []), (''running'', Event False)]"
  by (simp add: initialize_def set_strategy_def set_adapter_def and_then_def getattr_def
      setattr_def CoreEngine_init_def)

lemma engine_started:
  assumes "list_all starts adapter_keys"
  shows "started_engine starts =
     Return [(''logger'', Opaque), (''mode'', Opaque), (''params'', Opaque),
      (''message_bus'', Opaque), (''symbols_map'', Opaque), (''output_dir'', Opaque),
      (''adapters'', Adapters adapter_keys),
      (''porfolio_manager'', NoneVal), (''orderbook_manager'', NoneVal),
      (''performance_manager'', NoneVal), (''order_manager'', NoneVal),
      (''threads'', Threads adapter_keys), (''running'', Event True)]"
proof -
  have "started_engine starts =
          and_then (and_then (initialize CoreEngine_init) set_strategy) (start starts)"
    by (cases "initialize CoreEngine_init") (simp_all add: started_engine_def and_then_def)
  then show ?thesis
    using assms
    by (simp add: engine_with_strategy)
       (simp add: and_then_def start_def getattr_def setattr_def adapter_keys_def)
qed

text \<open>
  C8. The claim fails on \<open>CoreEngine\<close>: no method assigns \<open>self.completed\<close>. For the
  engine that was constructed, initialised, given its strategy and started (all five
  adapters having set \<open>running\<close>), once all five adapter threads have ended the
  monitor raises \<open>AttributeError\<close> at \<open>self.completed.set()\<close> instead of signalling
  completion, and \<open>wait_until_complete\<close> raises \<open>AttributeError\<close> instead of
  returning.
\<close>

theorem completed_is_never_assigned:
  assumes "list_all starts adapter_keys" and "list_all finished adapter_keys"
  shows "\<exists>self. started_engine starts = Return self
           \<and> getattr self ''threads'' = Inr (Threads adapter_keys)
           \<and> getattr self ''running'' = Inr (Event True)
           \<and> monitor_threads finished self = Raise AttributeError
           \<and> wait_until_complete self = Raise AttributeError"
  using assms(2)
  by (simp add: engine_started[OF assms(1)])
     (simp add: getattr_def monitor_threads_def wait_until_complete_def)

theorem completed_is_never_assigned_witness:
  "list_all (\<lambda>key. True) adapter_keys
   \<and> (\<exists>self. started_engine (\<lambda>key. True) = Return self
           \<and> getattr self ''threads'' = Inr (Threads adapter_keys)
           \<and> getattr self ''running'' = Inr (Event True)
           \<and> monitor_threads (\<lambda>key. True) self = Raise AttributeError
           \<and> wait_until_complete self = Raise AttributeError)"
proof -
  have a: "list_all (\<lambda>key. True) adapter_keys" by (simp add: adapter_keys_def)
  from completed_is_never_assigned[OF a a] a show ?thesis by blast
qed

section \<open>Properties of \<open>Position\<close>\<close>

text \<open>
  C9, as the claim states it, fails: \<open>posA\<close> and \<open>posA'\<close> are two valid positions
  that differ in their market value (1000 and 1250) and in nothing else, and
  \<open>__eq__\<close> holds of them.
\<close>

theorem position_eq_market_value_counterexample:
  "Position_post_init posA = Inr posA \<and> Position_post_init posA' = Inr posA'
   \<and> \<not> py_eq (market_value posA) (market_value posA')
   \<and> Position_eq py_eq posA (PositionObj posA')"
  by (simp add: Position_post_init_def Position_eq_def posA_def posA'_def
      zero_pynum_def less_eq_pynum_def less_pynum_def)

text \<open>
  C9, amended. Whatever \<open>==\<close> does on numbers: \<open>p == q\<close> holds of two positions if
  and only if their actions and their quantity multipliers are equal and the average
  cost, the quantity, the price multiplier, the initial margin and the total cost of
  \<open>p\<close> are each \<open>==\<close> to that of \<open>q\<close>. The market value is not compared: the
  result is the same whatever market values the two positions are given. So \<open>p\<close>
  and \<open>p\<close> at another market value are equal exactly when each of the five compared
  numbers of \<open>p\<close> is \<open>==\<close> to itself, which fails for a NaN. An object that is not
  a position equals none.
\<close>

theorem position_eq_all_fields_but_market_value:
  "(Position_eq eq p (PositionObj q) \<longleftrightarrow>
      Position.action p = Position.action q \<and> eq (avg_cost p) (avg_cost q) \<and>
      eq (Position.quantity p) (Position.quantity q) \<and>
      eq (price_multiplier p) (price_multiplier q) \<and>
      quantity_multiplier p = quantity_multiplier q \<and>
      eq (initial_margin p) (initial_margin q) \<and> eq (total_cost p) (total_cost q))
   \<and> (Position_eq eq (p\<lparr>market_value := m\<rparr>) (PositionObj (q\<lparr>market_value := m'\<rparr>)) \<longleftrightarrow>
        Position_eq eq p (PositionObj q))
   \<and> (Position_eq eq p (PositionObj (p\<lparr>market_value := m\<rparr>)) \<longleftrightarrow>
        eq (avg_cost p) (avg_cost p) \<and> eq (Position.quantity p) (Position.quantity p) \<and>
        eq (price_multiplier p) (price_multiplier p) \<and>
        eq (initial_margin p) (initial_margin p) \<and> eq (total_cost p) (total_cost p))
   \<and> \<not> Position_eq eq p OtherObj"
proof -
  have fields: "Position_eq eq p (PositionObj q) \<longleftrightarrow>
      Position.action p = Position.action q \<and> eq (avg_cost p) (avg_cost q) \<and>
      eq (Position.quantity p) (Position.quantity q) \<and>
      eq (price_multiplier p) (price_multiplier q) \<and>
      quantity_multiplier p = quantity_multiplier q \<and>
      eq (initial_margin p) (initial_margin q) \<and> eq (total_cost p) (total_cost q)"
    for p q :: "'a Position"
    by (simp add: Position_eq_def)
  have frame: "Position_eq eq (p\<lparr>market_value := m\<rparr>) (PositionObj (q\<lparr>market_value := m'\<rparr>)) \<longleftrightarrow>
        Position_eq eq p (PositionObj q)"
    by (simp add: fields)
  have self: "Position_eq eq p (PositionObj (p\<lparr>market_value := m\<rparr>)) \<longleftrightarrow>
        eq (avg_cost p) (avg_cost p) \<and> eq (Position.quantity p) (Position.quantity p) \<and>
        eq (price_multiplier p) (price_multiplier p) \<and>
        eq (initial_margin p) (initial_margin p) \<and> eq (total_cost p) (total_cost p)"
    by (simp add: fields)
  have other: "\<not> Position_eq eq p OtherObj"
    by (simp add: Position_eq_def)
  from fields[of p q] frame self other show ?thesis by blast
qed

text \<open>
  At \<open>posA\<close> the two market values do not matter; a change of the total cost does;
  and \<open>posNaN\<close>, which \<open>__post_init__\<close> accepts, is equal neither to itself nor to
  itself at another market value.
\<close>

theorem position_eq_all_fields_but_market_value_witness:
  "Position_eq py_eq posA (PositionObj posA')
   \<and> \<not> Position_eq py_eq posA (PositionObj (posA\<lparr>total_cost := Num 999\<rparr>))
   \<and> Position_post_init posNaN = Inr posNaN
   \<and> \<not> Position_eq py_eq posNaN (PositionObj posNaN)
   \<and> \<not> Position_eq py_eq posNaN (PositionObj (posNaN\<lparr>market_value := Num 1250\<rparr>))"
proof -
  have v: "Position_post_init posNaN = Inr posNaN"
    by (simp add: Position_post_init_def posNaN_def posA_def zero_pynum_def less_eq_pynum_def
        less_pynum_def)
  from position_eq_all_fields_but_market_value[of py_eq posA posA' "Num 1250" "Num 1250"]
       position_eq_all_fields_but_market_value
         [of py_eq posA "posA\<lparr>total_cost := Num 999\<rparr>" "Num 1000" "Num 1000"]
       position_eq_all_fields_but_market_value[of py_eq posNaN posNaN "Num 1250" "Num 1250"]
       v
  show ?thesis by (simp add: posA_def posA'_def posNaN_def)
qed

end
